theory Spec2Isabelle
  imports Main "HOL-Library.Sublist"
begin

section \<open>Strings\<close>

text \<open>
  A JavaScript string is modelled as a HOL \<open>string\<close>: the list of the bytes of its UTF-8
  encoding. Every keyword and every literal that the classifier and the dispatcher compare
  against is ASCII, and UTF-8 never produces an ASCII byte inside the encoding of a
  non-ASCII code point, so substring search on the bytes agrees with
  \<^verbatim>\<open>String.prototype.includes\<close> on the code units.

  \<^verbatim>\<open>toLowerCase\<close> is modelled on the ASCII letters: \<open>A\<close> .. \<open>Z\<close> (65 .. 90) move to
  \<open>a\<close> .. \<open>z\<close> and every other byte stays. (The Unicode case mapping also changes
  non-ASCII letters; apart from U+0130 and U+212A it maps them to non-ASCII letters again,
  which no keyword contains.)
\<close>

definition lowerChar :: "char \<Rightarrow> char" where
  "lowerChar c =
     (let n = (of_char c :: nat) in if 65 \<le> n \<and> n \<le> 90 then char_of (n + 32) else c)"

definition toLowerCase :: "string \<Rightarrow> string" where
  "toLowerCase s = map lowerChar s"

text \<open>\<^verbatim>\<open>s.includes(k)\<close>: \<open>k\<close> occurs in \<open>s\<close> at some position.\<close>

fun includes_str :: "string \<Rightarrow> string \<Rightarrow> bool" where
  "includes_str [] k = (k = [])"
| "includes_str (c # cs) k = (prefix k (c # cs) \<or> includes_str cs k)"

text \<open>
  \<^verbatim>\<open>trim\<close> removes the ECMAScript white space and line terminators from both ends:
  U+0009 .. U+000D, U+0020, U+00A0, U+1680, U+2000 .. U+200A, U+2028, U+2029, U+202F,
  U+205F, U+3000 and U+FEFF, here in their UTF-8 encoding.
\<close>

definition whitespace_seqs :: "string list" where
  "whitespace_seqs =
     [[CHR 0x09], [CHR 0x0A], [CHR 0x0B], [CHR 0x0C], [CHR 0x0D], [CHR 0x20],
      [CHR 0xC2, CHR 0xA0], [CHR 0xE1, CHR 0x9A, CHR 0x80],
      [CHR 0xE2, CHR 0x80, CHR 0x80], [CHR 0xE2, CHR 0x80, CHR 0x81],
      [CHR 0xE2, CHR 0x80, CHR 0x82], [CHR 0xE2, CHR 0x80, CHR 0x83],
      [CHR 0xE2, CHR 0x80, CHR 0x84], [CHR 0xE2, CHR 0x80, CHR 0x85],
      [CHR 0xE2, CHR 0x80, CHR 0x86], [CHR 0xE2, CHR 0x80, CHR 0x87],
      [CHR 0xE2, CHR 0x80, CHR 0x88], [CHR 0xE2, CHR 0x80, CHR 0x89],
      [CHR 0xE2, CHR 0x80, CHR 0x8A], [CHR 0xE2, CHR 0x80, CHR 0xA8],
      [CHR 0xE2, CHR 0x80, CHR 0xA9], [CHR 0xE2, CHR 0x80, CHR 0xAF],
      [CHR 0xE2, CHR 0x81, CHR 0x9F], [CHR 0xE3, CHR 0x80, CHR 0x80],
      [CHR 0xEF, CHR 0xBB, CHR 0xBF]]"

function strip_leading :: "string list \<Rightarrow> string \<Rightarrow> string" where
  "strip_leading ws s =
     (case find (\<lambda>w. w \<noteq> [] \<and> prefix w s) ws of
        None \<Rightarrow> s
      | Some w \<Rightarrow> strip_leading ws (drop (length w) s))"
  by pat_completeness auto
termination
proof (relation "measure (\<lambda>(ws, s). length s)")
  show "wf (measure (\<lambda>(ws, s). length s))"
    by simp
next
  fix ws :: "string list" and s w :: string
  assume "find (\<lambda>w. w \<noteq> [] \<and> prefix w s) ws = Some w"
  then have "w \<noteq> []" and "prefix w s"
    by (auto simp: find_Some_iff)
  then have "0 < length w" and "length w \<le> length s"
    by (auto simp: prefix_length_le)
  then have "length s - length w < length s"
    by arith
  then show "((ws, drop (length w) s), (ws, s)) \<in> measure (\<lambda>(ws, s). length s)"
    by simp
qed

definition trim :: "string \<Rightarrow> string" where
  "trim s = rev (strip_leading (map rev whitespace_seqs) (rev (strip_leading whitespace_seqs s)))"

section \<open>Targets and their configuration\<close>

text \<open>
  The five keys of \<^verbatim>\<open>AGENT_CONFIGS\<close>. The specification calls them collector
  (\<open>agent1\<close>), knowledge (\<open>agent2\<close>), database (\<open>agent3\<close>), transformer (\<open>agent4\<close>) and
  orchestrator.
\<close>

datatype agent_id = agent1 | agent2 | agent3 | agent4 | orchestrator

text \<open>
  Of each configuration entry the dispatcher reads \<open>name\<close> and \<open>url\<close>; \<open>icon\<close>, \<open>color\<close>
  and \<open>description\<close> are read by the rendering only.
\<close>

record agent_config =
  name :: string
  url :: string

fun AGENT_CONFIGS :: "agent_id \<Rightarrow> agent_config" where
  "AGENT_CONFIGS agent1 =
     \<lparr>name = ''Web Scraper & Data Collector'', url = ''https://3dhkilcjlzdj.manus.space''\<rparr>"
| "AGENT_CONFIGS agent2 =
     \<lparr>name = ''Knowledge Base Creator'', url = ''https://g8h3ilcv0k7m.manus.space''\<rparr>"
| "AGENT_CONFIGS agent3 =
     \<lparr>name = ''Database Manager'', url = ''https://77h9ikczonwo.manus.space''\<rparr>"
| "AGENT_CONFIGS agent4 =
     \<lparr>name = ''Data Transformer'', url = ''https://lnh8imcj5kwd.manus.space''\<rparr>"
| "AGENT_CONFIGS orchestrator =
     \<lparr>name = ''System Orchestrator'', url = ''https://mzhyi8cnozj8.manus.space''\<rparr>"

section \<open>Intent classifier\<close>

definition analyzeIntent :: "string \<Rightarrow> agent_id" where
  "analyzeIntent message =
     (let lowerMessage = toLowerCase message in
      if includes_str lowerMessage ''upload'' \<or>
         includes_str lowerMessage ''scrape'' \<or>
         includes_str lowerMessage ''collect'' \<or>
         includes_str lowerMessage ''file'' \<or>
         includes_str lowerMessage ''attachment'' \<or>
         includes_str lowerMessage ''download'' \<or>
         includes_str lowerMessage ''extract data''
      then agent1
      else if includes_str lowerMessage ''knowledge'' \<or>
         includes_str lowerMessage ''document'' \<or>
         includes_str lowerMessage ''search'' \<or>
         includes_str lowerMessage ''find'' \<or>
         includes_str lowerMessage ''what were'' \<or>
         includes_str lowerMessage ''last'' \<or>
         includes_str lowerMessage ''process for'' \<or>
         includes_str lowerMessage ''how to'' \<or>
         includes_str lowerMessage ''procedure'' \<or>
         includes_str lowerMessage ''incorporated'' \<or>
         includes_str lowerMessage ''added to''
      then agent2
      else if includes_str lowerMessage ''how many'' \<or>
         includes_str lowerMessage ''sold'' \<or>
         includes_str lowerMessage ''database'' \<or>
         includes_str lowerMessage ''analytics'' \<or>
         includes_str lowerMessage ''report'' \<or>
         includes_str lowerMessage ''count'' \<or>
         includes_str lowerMessage ''statistics'' \<or>
         includes_str lowerMessage ''backup'' \<or>
         includes_str lowerMessage ''last week'' \<or>
         includes_str lowerMessage ''last month''
      then agent3
      else if includes_str lowerMessage ''transform'' \<or>
         includes_str lowerMessage ''convert'' \<or>
         includes_str lowerMessage ''bestbuy'' \<or>
         includes_str lowerMessage ''walmart'' \<or>
         includes_str lowerMessage ''format'' \<or>
         includes_str lowerMessage ''mapping'' \<or>
         includes_str lowerMessage ''template''
      then agent4
      else orchestrator)"

text \<open>
  The keyword sets as the specification lists them (section 4.1), and the specification's
  reading of the classifier: the first rule, in priority order, one of whose keywords
  occurs in the lower-cased input; orchestrator when there is none.
\<close>

definition collector_keywords :: "string list" where
  "collector_keywords =
     [''upload'', ''scrape'', ''collect'', ''file'', ''attachment'', ''download'',
      ''extract data'']"

definition knowledge_keywords :: "string list" where
  "knowledge_keywords =
     [''knowledge'', ''document'', ''search'', ''find'', ''what were'', ''last'',
      ''process for'', ''how to'', ''procedure'', ''incorporated'', ''added to'']"

definition database_keywords :: "string list" where
  "database_keywords =
     [''how many'', ''sold'', ''database'', ''analytics'', ''report'', ''count'',
      ''statistics'', ''backup'', ''last week'', ''last month'']"

definition transformer_keywords :: "string list" where
  "transformer_keywords =
     [''transform'', ''convert'', ''bestbuy'', ''walmart'', ''format'', ''mapping'',
      ''template'']"

definition classify_rules :: "(agent_id \<times> string list) list" where
  "classify_rules =
     [(agent1, collector_keywords), (agent2, knowledge_keywords),
      (agent3, database_keywords), (agent4, transformer_keywords)]"

definition classify :: "string \<Rightarrow> agent_id" where
  "classify text =
     (case find (\<lambda>(target, kws). list_ex (includes_str (toLowerCase text)) kws) classify_rules of
        Some (target, kws) \<Rightarrow> target
      | None \<Rightarrow> orchestrator)"

section \<open>JSON values, errors and HTTP\<close>

text \<open>
  A parsed JSON value. The code looks at a response body in one place only, the truthiness
  of its \<open>extracted_data\<close> property, so a number is kept as an integer: all that is read
  of it is whether it is zero.
\<close>

datatype json =
  JNull | JBool bool | JNum int | JStr string | JArr "json list" | JObj "(string \<times> json) list"

text \<open>A thrown JavaScript error; the handlers read its \<open>message\<close> only (\<open>error_message\<close>).\<close>

datatype js_error = Error (error_message: string)

fun truthy :: "json \<Rightarrow> bool" where
  "truthy JNull = False"
| "truthy (JBool b) = b"
| "truthy (JNum n) = (n \<noteq> 0)"
| "truthy (JStr s) = (s \<noteq> [])"
| "truthy (JArr xs) = True"
| "truthy (JObj kvs) = True"

text \<open>
  \<^verbatim>\<open>data.extracted_data\<close>: reading a property of \<open>null\<close> throws a TypeError (the
  message is the one of V8); an object gives the value of the key, the last one when the
  key is repeated, or \<open>undefined\<close> (\<open>None\<close>); every other value gives \<open>undefined\<close>.
\<close>

fun extracted_data :: "json \<Rightarrow> js_error + json option" where
  "extracted_data JNull =
     Inl (Error (''Cannot read properties of null (reading '' @ [CHR 0x27] @
                 ''extracted_data'' @ [CHR 0x27] @ '')''))"
| "extracted_data (JObj kvs) = Inr (map_of (rev kvs) ''extracted_data'')"
| "extracted_data v = Inr None"

record js_file =
  file_name :: string
  file_content :: string

datatype http_method = GET | POST

text \<open>
  The body of a request: none (\<open>null\<close>), the text \<^verbatim>\<open>JSON.stringify\<close> makes of a value,
  or a \<^verbatim>\<open>FormData\<close> with its fields.
\<close>

datatype request_body = NoBody | JsonString json | FormData "(string \<times> js_file) list"

record request =
  req_url :: string
  req_method :: http_method
  req_headers :: "(string \<times> string) list"
  req_body :: request_body

text \<open>
  What the code sees of a response: its status, and what \<^verbatim>\<open>response.json()\<close> gives,
  the parsed body or the error it rejects with.
\<close>

record http_response =
  status :: nat
  json_body :: "js_error + json"

definition ok :: "http_response \<Rightarrow> bool" where
  "ok r = (200 \<le> status r \<and> status r \<le> 299)"

text \<open>
  \<^verbatim>\<open>fetch\<close> either rejects (a transport failure) or resolves to a response. The network
  is a parameter of the model: a function from the request to its outcome.
\<close>

datatype fetch_outcome = Rejected js_error | Resolved http_response

type_synonym fetch_fn = "request \<Rightarrow> fetch_outcome"

section \<open>Dispatcher\<close>

text \<open>
  Every function that calls \<^verbatim>\<open>fetch\<close> returns, next to its result, the list of the
  requests it has sent, in order.
\<close>

datatype upload_result = UploadSuccess json | UploadFailure string

text \<open>The request of \<^verbatim>\<open>uploadFileToAgent\<close>: a POST of the form data, no headers given.\<close>

definition upload_request :: "js_file \<Rightarrow> request" where
  "upload_request file =
     (let formData = [(''file'', file)]
      in \<lparr>req_url = url (AGENT_CONFIGS agent1) @ ''/api/files/upload'',
          req_method = POST, req_headers = [], req_body = FormData formData\<rparr>)"

definition uploadFileToAgent :: "fetch_fn \<Rightarrow> js_file \<Rightarrow> upload_result \<times> request list" where
  "uploadFileToAgent fetch file =
     (let req = upload_request file
      in (case fetch req of
            Rejected error \<Rightarrow> UploadFailure (error_message error)
          | Resolved response \<Rightarrow>
              if ok response then
                (case json_body response of
                   Inl error \<Rightarrow> UploadFailure (error_message error)
                 | Inr result \<Rightarrow> UploadSuccess result)
              else UploadFailure ''Upload failed'',
          [req]))"

text \<open>The template literals of \<^verbatim>\<open>generateAgentResponse\<close>, byte for byte.\<close>

definition response_agent1 :: string where
  \<open>response_agent1 =
     ''I'' @
     [CHR 0x27] @
     ''ve processed your request for data collection. The web scraper is ready '' @
     ''to handle file uploads and data extraction tasks.''\<close>

definition response_agent2_last_documents :: string where
  \<open>response_agent2_last_documents =
     ''Based on the knowledge base, here are the last 3 documents that were incorporated:'' @
     [CHR 0x0A, CHR 0x0A] @
     ''1. Product Specification Guide (added 2 hours ago)'' @
     [CHR 0x0A] @
     ''2. Customer Support Manual (added 1 day ago)'' @
     [CHR 0x0A] @
     ''3. Pricing Guidelines Document (added 2 days ago)'' @
     [CHR 0x0A, CHR 0x0A] @
     ''Would you like me to search for specific information within these documents?''\<close>

definition response_agent2_process :: string where
  \<open>response_agent2_process =
     ''I found relevant information about the process you'' @
     [CHR 0x27] @
     ''re asking about. Here'' @
     [CHR 0x27] @
     ''s what I found in the knowledge base:'' @
     [CHR 0x0A, CHR 0x0A] @
     ''**Creating a New Listing Process:**'' @
     [CHR 0x0A] @
     ''1. Gather product information and specifications'' @
     [CHR 0x0A] @
     ''2. Prepare product images and descriptions'' @
     [CHR 0x0A] @
     ''3. Set pricing and inventory levels'' @
     [CHR 0x0A] @
     ''4. Configure shipping and fulfillment options'' @
     [CHR 0x0A] @
     ''5. Review and publish the listing'' @
     [CHR 0x0A, CHR 0x0A] @
     ''Would you like more detailed information about any of these steps?''\<close>

definition response_agent2_default :: string where
  \<open>response_agent2_default =
     ''I'' @
     [CHR 0x27] @
     ''ve searched the knowledge base for information related to your query. '' @
     ''The system is ready to process documents and provide semantic search capabilities.''\<close>

definition response_agent3_laptops :: string where
  \<open>response_agent3_laptops =
     ''Based on the database analytics for last week:'' @
     [CHR 0x0A, CHR 0x0A, CHR 0xC3, CHR 0xB0, CHR 0xC5, CHR 0xB8, CHR 0xE2, CHR 0x80, CHR 0x9C, CHR 0xC5, CHR 0xA0] @
     '' **Laptop Sales Summary:**'' @
     [CHR 0x0A, CHR 0xC3, CHR 0xA2, CHR 0xE2, CHR 0x82, CHR 0xAC, CHR 0xC2, CHR 0xA2] @
     '' Total laptops sold: 247 units'' @
     [CHR 0x0A, CHR 0xC3, CHR 0xA2, CHR 0xE2, CHR 0x82, CHR 0xAC, CHR 0xC2, CHR 0xA2] @
     '' Revenue generated: $186,420'' @
     [CHR 0x0A, CHR 0xC3, CHR 0xA2, CHR 0xE2, CHR 0x82, CHR 0xAC, CHR 0xC2, CHR 0xA2] @
     '' Top selling model: MacBook Air M2 (67 units)'' @
     [CHR 0x0A, CHR 0xC3, CHR 0xA2, CHR 0xE2, CHR 0x82, CHR 0xAC, CHR 0xC2, CHR 0xA2] @
     '' Average selling price: $755'' @
     [CHR 0x0A, CHR 0xC3, CHR 0xA2, CHR 0xE2, CHR 0x82, CHR 0xAC, CHR 0xC2, CHR 0xA2] @
     '' Peak sales day: Friday (89 units)'' @
     [CHR 0x0A, CHR 0x0A] @
     ''Would you like a more detailed breakdown by model or day?''\<close>

definition response_agent3_default :: string where
  \<open>response_agent3_default =
     ''Database analytics are available. I can provide sales reports, inventory '' @
     ''counts, and performance metrics from the database.''\<close>

definition response_agent4 :: string where
  \<open>response_agent4 =
     ''The data transformer is ready to convert data between different formats. '' @
     ''I can help transform product data from BestBuy format to Walmart format, '' @
     ''or handle other data mapping tasks.''\<close>

definition response_orchestrator :: string where
  \<open>response_orchestrator =
     ''System status: All agents are operational and ready to assist. I can coordinate '' @
     ''complex workflows across multiple agents or help you with system management '' @
     ''tasks.''\<close>

fun generateAgentResponse :: "agent_id \<Rightarrow> string \<Rightarrow> json \<Rightarrow> string" where
  "generateAgentResponse agent1 message data = response_agent1"
| "generateAgentResponse agent2 message data =
     (let lowerMessage = toLowerCase message in
      if includes_str lowerMessage ''last'' \<and> includes_str lowerMessage ''document''
      then response_agent2_last_documents
      else if includes_str lowerMessage ''process'' \<or> includes_str lowerMessage ''how to''
      then response_agent2_process
      else response_agent2_default)"
| "generateAgentResponse agent3 message data =
     (let lowerMessage = toLowerCase message in
      if includes_str lowerMessage ''how many'' \<and> includes_str lowerMessage ''laptop''
      then response_agent3_laptops
      else response_agent3_default)"
| "generateAgentResponse agent4 message data = response_agent4"
| "generateAgentResponse orchestrator message data = response_orchestrator"

record send_result =
  success :: bool
  response :: string
  data :: "json option"

text \<open>The \<^verbatim>\<open>catch\<close> block of \<^verbatim>\<open>sendToAgent\<close>.\<close>

definition communication_error :: "agent_config \<Rightarrow> js_error \<Rightarrow> send_result" where
  "communication_error agent error =
     \<lparr>success = False,
      response = ''Error communicating with '' @ name agent @ '': '' @ error_message error,
      data = None\<rparr>"

text \<open>The branch of \<^verbatim>\<open>sendToAgent\<close> for \<open>agent1\<close> with a file.\<close>

definition sendFile :: "fetch_fn \<Rightarrow> agent_config \<Rightarrow> js_file \<Rightarrow> send_result \<times> request list" where
  \<open>sendFile fetch agent file =
     (let (uploadResult, sent) = uploadFileToAgent fetch file in
      (case uploadResult of
         UploadSuccess d \<Rightarrow>
           (case extracted_data d of
              Inl error \<Rightarrow> communication_error agent error
            | Inr v \<Rightarrow>
                \<lparr>success = True,
                 response = ''File '' @ [CHR 0x22] @ file_name file @ [CHR 0x22] @
                   '' uploaded successfully! Extracted '' @
                   (if (case v of None \<Rightarrow> False | Some j \<Rightarrow> truthy j)
                    then ''text content and metadata'' else ''file information'') @ ''.'',
                 data = Some d\<rparr>)
       | UploadFailure error \<Rightarrow>
           \<lparr>success = False, response = ''Failed to upload file: '' @ error, data = None\<rparr>,
       sent))\<close>

text \<open>
  The request of the general branch: endpoint, method and body by target, sent to the
  target's base URL with a JSON content type.
\<close>

definition agent_request :: "agent_id \<Rightarrow> string \<Rightarrow> request" where
  "agent_request agentId message =
     (let (endpoint, method, body) =
        (if agentId = agent2 then
           (''/api/knowledge/search'', POST,
            JsonString (JObj [(''query'', JStr message), (''max_results'', JNum 5)]))
         else if agentId = agent3 then (''/api/analytics/'', GET, NoBody)
         else if agentId = agent4 then (''/api/transformer/health'', GET, NoBody)
         else if agentId = orchestrator then (''/api/orchestrator/status'', GET, NoBody)
         else (''/api/health'', GET, NoBody))
      in \<lparr>req_url = url (AGENT_CONFIGS agentId) @ endpoint, req_method = method,
          req_headers = [(''Content-Type'', ''application/json'')], req_body = body\<rparr>)"

definition sendToAgent ::
  "fetch_fn \<Rightarrow> agent_id \<Rightarrow> string \<Rightarrow> js_file option \<Rightarrow> send_result \<times> request list" where
  "sendToAgent fetch agentId message file =
     (let agent = AGENT_CONFIGS agentId in
      if agentId = agent1 \<and> file \<noteq> None then sendFile fetch agent (the file)
      else
        (let req = agent_request agentId message in
         (case fetch req of
            Rejected error \<Rightarrow> communication_error agent error
          | Resolved resp \<Rightarrow>
              if ok resp then
                (case json_body resp of
                   Inl error \<Rightarrow> communication_error agent error
                 | Inr result \<Rightarrow>
                     \<lparr>success = True,
                      response = generateAgentResponse agentId message result,
                      data = Some result\<rparr>)
              else
                \<lparr>success = False,
                 response = name agent @ '' is currently unavailable. Please try again later.'',
                 data = None\<rparr>,
          [req])))"

section \<open>Conversation store and session flow\<close>

datatype message_type = System | User | Agent

text \<open>
  A transcript entry; \<open>msg_id\<close>, \<open>msg_type\<close>, \<open>msg_success\<close>, \<open>msg_data\<close> and \<open>msg_file\<close>
  are the keys \<open>id\<close>, \<open>type\<close>, \<open>success\<close>, \<open>data\<close> and \<open>file\<close>. An optional field is
  \<open>None\<close> where the object literal has no such key, or holds \<open>null\<close> or \<open>undefined\<close>.
  Times are milliseconds.
\<close>

record message =
  msg_id :: nat
  msg_type :: message_type
  content :: string
  timestamp :: nat
  agent :: "agent_id option"
  msg_success :: "bool option"
  msg_data :: "json option"
  msg_file :: "js_file option"

text \<open>The state of the component: its four \<^verbatim>\<open>useState\<close> cells.\<close>

record chat_state =
  messages :: "message list"
  inputValue :: string
  isLoading :: bool
  selectedFile :: "js_file option"

definition greeting_content :: string where
  \<open>greeting_content =
     ''Welcome to the Multi-Agent MCP System! I can help you with data collection, '' @
     ''knowledge management, database operations, and data transformation. What '' @
     ''would you like to do?''\<close>

definition greeting :: "nat \<Rightarrow> message" where
  "greeting t0 =
     \<lparr>msg_id = 1, msg_type = System, content = greeting_content, timestamp = t0,
      agent = Some orchestrator, msg_success = None, msg_data = None, msg_file = None\<rparr>"

definition initial_state :: "nat \<Rightarrow> chat_state" where
  "initial_state t0 =
     \<lparr>messages = [greeting t0], inputValue = [], isLoading = False, selectedFile = None\<rparr>"

definition handleFileSelect :: "js_file list \<Rightarrow> chat_state \<Rightarrow> chat_state" where
  "handleFileSelect files st =
     (case files of [] \<Rightarrow> st | f # rest \<Rightarrow> st\<lparr>selectedFile := Some f\<rparr>)"

text \<open>
  The clock readings of one send: \<^verbatim>\<open>Date.now()\<close> and \<^verbatim>\<open>new Date()\<close> for the user
  message, then, after the dispatch, for the agent message.
\<close>

record clock =
  user_now :: nat
  user_date :: nat
  agent_now :: nat
  agent_date :: nat

text \<open>\<^verbatim>\<open>selectedFile?.name\<close> inside a template literal.\<close>

definition optional_name :: "js_file option \<Rightarrow> string" where
  "optional_name f = (case f of None \<Rightarrow> ''undefined'' | Some x \<Rightarrow> file_name x)"

text \<open>The text given to the classifier: \<^verbatim>\<open>inputValue || `upload file ${selectedFile?.name}`\<close>.\<close>

definition intent_text :: "chat_state \<Rightarrow> string" where
  "intent_text st =
     (if inputValue st \<noteq> [] then inputValue st
      else ''upload file '' @ optional_name (selectedFile st))"

definition userMessage :: "clock \<Rightarrow> chat_state \<Rightarrow> message" where
  "userMessage clk st =
     \<lparr>msg_id = user_now clk, msg_type = User,
      content = (if inputValue st \<noteq> [] then inputValue st
                 else ''Uploading file: '' @ optional_name (selectedFile st)),
      timestamp = user_date clk, agent = None, msg_success = None, msg_data = None,
      msg_file = selectedFile st\<rparr>"

text \<open>
  The state while the dispatch is awaited: the user message is appended and the loading
  flag is set.
\<close>

definition sending_state :: "clock \<Rightarrow> chat_state \<Rightarrow> chat_state" where
  "sending_state clk st = st\<lparr>messages := messages st @ [userMessage clk st], isLoading := True\<rparr>"

definition agentMessage :: "clock \<Rightarrow> agent_id \<Rightarrow> send_result \<Rightarrow> message" where
  "agentMessage clk targetAgent result =
     \<lparr>msg_id = agent_now clk + 1, msg_type = Agent, content = response result,
      timestamp = agent_date clk, agent = Some targetAgent,
      msg_success = Some (success result), msg_data = data result, msg_file = None\<rparr>"

text \<open>
  \<^verbatim>\<open>handleSendMessage\<close>, run to its end: the new state and the requests sent. While the
  dispatch is awaited (\<open>sending_state\<close>) the input, the file picker and the send control
  are disabled, so no other send starts in between.
\<close>

definition handleSendMessage :: "fetch_fn \<Rightarrow> clock \<Rightarrow> chat_state \<Rightarrow> chat_state \<times> request list" where
  "handleSendMessage fetch clk st =
     (if trim (inputValue st) = [] \<and> selectedFile st = None then (st, [])
      else
        (let st1 = sending_state clk st;
             targetAgent = analyzeIntent (intent_text st);
             (result, sent) = sendToAgent fetch targetAgent (inputValue st) (selectedFile st);
             st2 = st1\<lparr>messages := messages st1 @ [agentMessage clk targetAgent result],
                       inputValue := [], selectedFile := None, isLoading := False\<rparr>
         in (st2, sent)))"

text \<open>
  The events of the user interface: typing into the input, choosing files in the picker,
  the Remove button of the staged file, a key press in the input (Enter without Shift
  sends) and the Send button.
\<close>

datatype event =
  InputChange string
| FileSelect "js_file list"
| RemoveFile
| KeyPress string bool fetch_fn clock
| SendClick fetch_fn clock

fun handle :: "event \<Rightarrow> chat_state \<Rightarrow> chat_state" where
  "handle (InputChange v) st = st\<lparr>inputValue := v\<rparr>"
| "handle (FileSelect files) st = handleFileSelect files st"
| "handle RemoveFile st = st\<lparr>selectedFile := None\<rparr>"
| "handle (KeyPress key shiftKey fetch clk) st =
     (if key = ''Enter'' \<and> \<not> shiftKey then fst (handleSendMessage fetch clk st) else st)"
| "handle (SendClick fetch clk) st = fst (handleSendMessage fetch clk st)"

fun run :: "event list \<Rightarrow> chat_state \<Rightarrow> chat_state" where
  "run [] st = st"
| "run (e # es) st = run es (handle e st)"

text \<open>A request that carries form data: the file upload.\<close>

definition is_file_upload :: "request \<Rightarrow> bool" where
  "is_file_upload r = (case req_body r of FormData fd \<Rightarrow> True | _ \<Rightarrow> False)"

section \<open>Sample inputs\<close>

text \<open>
  Concrete inputs for the examples below: a backend that answers every request with
  status 500, one that answers 200 with an empty object, a staged file, clock readings,
  and the states after typing a text or staging a file.
\<close>

definition backend_500 :: fetch_fn where
  "backend_500 req = Resolved \<lparr>status = 500, json_body = Inr JNull\<rparr>"

definition backend_200 :: fetch_fn where
  "backend_200 req = Resolved \<lparr>status = 200, json_body = Inr (JObj [])\<rparr>"

definition sample_file :: js_file where
  "sample_file = \<lparr>file_name = ''report.pdf'', file_content = ''%PDF''\<rparr>"

definition sample_clock :: clock where
  "sample_clock = \<lparr>user_now = 1000, user_date = 1000, agent_now = 1250, agent_date = 1250\<rparr>"

definition typed_state :: "string \<Rightarrow> chat_state" where
  "typed_state v = handle (InputChange v) (initial_state 0)"

definition staged_state :: "string \<Rightarrow> chat_state" where
  "staged_state v = handle (FileSelect [sample_file]) (typed_state v)"

section \<open>Properties of the string operations\<close>

lemma includes_str_sublist: "includes_str s k \<longleftrightarrow> sublist k s"
  by (induction s) (simp_all add: sublist_Cons_right)

lemma includes_str_append_left: "includes_str a k \<Longrightarrow> includes_str (a @ b) k"
  by (simp add: includes_str_sublist sublist_append)

lemma lowerChar_idem: "lowerChar (lowerChar c) = lowerChar c"
  by (auto simp: lowerChar_def Let_def)

lemma toLowerCase_idem: "toLowerCase (toLowerCase s) = toLowerCase s"
  by (simp add: toLowerCase_def lowerChar_idem)

lemma toLowerCase_append: "toLowerCase (a @ b) = toLowerCase a @ toLowerCase b"
  by (simp add: toLowerCase_def)

section \<open>Properties of the classifier\<close>

lemma analyzeIntent_classify: "analyzeIntent s = classify s"
  by (simp add: analyzeIntent_def classify_def classify_rules_def Let_def
      collector_keywords_def knowledge_keywords_def database_keywords_def
      transformer_keywords_def)

lemma agent1_if_collector_rule:
  "list_ex (includes_str (toLowerCase s)) collector_keywords \<Longrightarrow> analyzeIntent s = agent1"
  by (simp add: analyzeIntent_def collector_keywords_def Let_def)

text \<open>
  C1. Whenever a keyword of the collector set occurs in the lower-cased input, the
  classifier answers \<open>agent1\<close> (collector), whatever else the input contains.
\<close>

theorem collector_keyword_wins:
  assumes "k \<in> set collector_keywords" and "includes_str (toLowerCase s) k"
  shows "analyzeIntent s = agent1"
proof -
  from assms have "list_ex (includes_str (toLowerCase s)) collector_keywords"
    unfolding list_ex_iff by blast
  then show ?thesis
    by (rule agent1_if_collector_rule)
qed

theorem collector_keyword_wins_witness:
  "''upload'' \<in> set collector_keywords
   \<and> includes_str (toLowerCase ''please upload and search this document'') ''upload''
   \<and> includes_str (toLowerCase ''please upload and search this document'') ''document''
   \<and> analyzeIntent ''please upload and search this document'' = agent1"
proof -
  have h1: "''upload'' \<in> set collector_keywords"
    by (simp add: collector_keywords_def)
  have h2: "includes_str (toLowerCase ''please upload and search this document'') ''upload''"
    by code_simp
  have h3: "includes_str (toLowerCase ''please upload and search this document'') ''document''"
    by code_simp
  from h1 h2 h3 collector_keyword_wins [OF h1 h2] show ?thesis
    by blast
qed

text \<open>
  C2. The specification expects \<open>How many laptops were sold last week?\<close> to reach the
  database target (\<open>agent3\<close>). The code answers \<open>agent2\<close>: the keyword \<open>last\<close> of the
  second rule occurs in \<open>last week\<close>, and the second rule is tested before the third.
\<close>

theorem laptops_query_goes_to_agent2:
  "analyzeIntent ''How many laptops were sold last week?'' = agent2"
  by code_simp



text \<open>
  C4. The classifier is case-insensitive: an input and its lower-cased form are classified
  alike, and so are \<open>UPLOAD FILE\<close> and \<open>upload file\<close>.
\<close>

theorem analyzeIntent_case_insensitive:
  "analyzeIntent s = analyzeIntent (toLowerCase s)
   \<and> analyzeIntent ''UPLOAD FILE'' = analyzeIntent ''upload file''"
proof
  show "analyzeIntent s = analyzeIntent (toLowerCase s)"
    by (simp add: analyzeIntent_def toLowerCase_idem)
  show "analyzeIntent ''UPLOAD FILE'' = analyzeIntent ''upload file''"
    by code_simp
qed

section \<open>Properties of the dispatcher\<close>

lemma sendToAgent_one_request: "length (snd (sendToAgent fetch agentId msg f)) = 1"
  by (simp add: sendToAgent_def sendFile_def uploadFileToAgent_def Let_def split: prod.splits)

lemma name_included: "includes_str (n @ rest) n"
  by (simp add: includes_str_sublist)

lemma general_path_failure_result:
  assumes "\<not> (agentId = agent1 \<and> f \<noteq> None)"
    and "fetch (agent_request agentId msg) = Resolved resp"
    and "status resp < 200 \<or> 299 < status resp"
  shows "sendToAgent fetch agentId msg f =
           (\<lparr>success = False,
             response = name (AGENT_CONFIGS agentId) @
               '' is currently unavailable. Please try again later.'',
             data = None\<rparr>,
            [agent_request agentId msg])"
proof -
  from assms(3) have "\<not> ok resp"
    by (auto simp: ok_def)
  with assms(1,2) show ?thesis
    by (auto simp: sendToAgent_def Let_def)
qed

text \<open>
  C5. On the general path (not the upload of a file to \<open>agent1\<close>), a response whose
  status is outside 200 .. 299 gives a failed result with the text
  "<display name> is currently unavailable. Please try again later.", and the dispatch
  has sent exactly one request.
\<close>

theorem general_path_http_failure:
  assumes "\<not> (agentId = agent1 \<and> f \<noteq> None)"
    and "fetch (agent_request agentId msg) = Resolved resp"
    and "status resp < 200 \<or> 299 < status resp"
  shows "sendToAgent fetch agentId msg f =
           (\<lparr>success = False,
             response = name (AGENT_CONFIGS agentId) @
               '' is currently unavailable. Please try again later.'',
             data = None\<rparr>,
            [agent_request agentId msg])
         \<and> length (snd (sendToAgent fetch agentId msg f)) = 1"
proof -
  have "sendToAgent fetch agentId msg f =
           (\<lparr>success = False,
             response = name (AGENT_CONFIGS agentId) @
               '' is currently unavailable. Please try again later.'',
             data = None\<rparr>,
            [agent_request agentId msg])"
    using assms by (rule general_path_failure_result)
  then show ?thesis
    by simp
qed

theorem general_path_http_failure_witness:
  "sendToAgent backend_500 agent3 ''sales report'' None =
     (\<lparr>success = False,
       response = ''Database Manager is currently unavailable. Please try again later.'',
       data = None\<rparr>,
      [agent_request agent3 ''sales report''])
   \<and> length (snd (sendToAgent backend_500 agent3 ''sales report'' None)) = 1"
proof -
  have h1: "\<not> (agent3 = agent1 \<and> (None :: js_file option) \<noteq> None)"
    by simp
  have h2: "backend_500 (agent_request agent3 ''sales report'') =
      Resolved \<lparr>status = 500, json_body = Inr JNull\<rparr>"
    by (simp add: backend_500_def)
  have h3: "status \<lparr>status = 500, json_body = Inr JNull\<rparr> < 200
      \<or> 299 < status \<lparr>status = 500, json_body = Inr JNull\<rparr>"
    by simp
  from general_path_http_failure [where fetch = backend_500 and msg = "''sales report''", OF h1 h2 h3]
  show ?thesis
    by simp
qed

lemma upload_failure_result:
  assumes "fetch (upload_request file) = Resolved resp"
    and "status resp < 200 \<or> 299 < status resp"
  shows "fst (sendToAgent fetch agent1 msg (Some file)) =
     \<lparr>success = False, response = ''Failed to upload file: Upload failed'', data = None\<rparr>"
proof -
  from assms(2) have "\<not> ok resp"
    by (auto simp: ok_def)
  with assms(1) show ?thesis
    by (simp add: sendToAgent_def sendFile_def uploadFileToAgent_def Let_def)
qed

text \<open>
  C6, as the specification states it, fails on the upload path: when the upload of a file
  to \<open>agent1\<close> is answered with status 500, the text of the result is
  "Failed to upload file: Upload failed", which does not name the target.
\<close>

theorem upload_http_failure_counterexample:
  "backend_500 (upload_request sample_file) = Resolved \<lparr>status = 500, json_body = Inr JNull\<rparr>
   \<and> success (fst (sendToAgent backend_500 agent1 ''upload this'' (Some sample_file))) = False
   \<and> response (fst (sendToAgent backend_500 agent1 ''upload this'' (Some sample_file))) =
       ''Failed to upload file: Upload failed''
   \<and> \<not> includes_str
         (response (fst (sendToAgent backend_500 agent1 ''upload this'' (Some sample_file))))
         (name (AGENT_CONFIGS agent1))"
proof -
  have r: "fst (sendToAgent backend_500 agent1 ''upload this'' (Some sample_file)) =
     \<lparr>success = False, response = ''Failed to upload file: Upload failed'', data = None\<rparr>"
    by (rule upload_failure_result [where resp = "\<lparr>status = 500, json_body = Inr JNull\<rparr>"])
       (simp_all add: backend_500_def)
  have n: "\<not> includes_str ''Failed to upload file: Upload failed'' (name (AGENT_CONFIGS agent1))"
    by simp
  show ?thesis
    unfolding r using n by (simp add: backend_500_def)
qed

text \<open>
  C6, amended. Every dispatch answered with a status outside 200 .. 299 gives an agent
  message that is marked failed. On the general path its text is
  "<display name> is currently unavailable. Please try again later." and so contains the
  display name of the target; on the path that uploads a file to \<open>agent1\<close> its text is
  "Failed to upload file: Upload failed".
\<close>

theorem http_failure_message:
  assumes "fetch (if agentId = agent1 \<and> f \<noteq> None then upload_request (the f)
                  else agent_request agentId msg) = Resolved resp"
    and "status resp < 200 \<or> 299 < status resp"
  shows "msg_success (agentMessage clk agentId (fst (sendToAgent fetch agentId msg f))) = Some False
     \<and> content (agentMessage clk agentId (fst (sendToAgent fetch agentId msg f))) =
         (if agentId = agent1 \<and> f \<noteq> None then ''Failed to upload file: Upload failed''
          else name (AGENT_CONFIGS agentId) @
               '' is currently unavailable. Please try again later.'')
     \<and> (agentId = agent1 \<and> f \<noteq> None
         \<or> includes_str (content (agentMessage clk agentId (fst (sendToAgent fetch agentId msg f))))
              (name (AGENT_CONFIGS agentId)))"
proof (cases "agentId = agent1 \<and> f \<noteq> None")
  case True
  then obtain fl where f: "f = Some fl" and a: "agentId = agent1"
    by auto
  with assms have "fetch (upload_request fl) = Resolved resp"
    by simp
  then have "fst (sendToAgent fetch agent1 msg (Some fl)) =
     \<lparr>success = False, response = ''Failed to upload file: Upload failed'', data = None\<rparr>"
    using assms(2) by (rule upload_failure_result)
  then show ?thesis
    by (simp add: agentMessage_def f a)
next
  case False
  with assms(1) have "fetch (agent_request agentId msg) = Resolved resp"
    by (auto split: if_splits)
  with False have "sendToAgent fetch agentId msg f =
           (\<lparr>success = False,
             response = name (AGENT_CONFIGS agentId) @
               '' is currently unavailable. Please try again later.'',
             data = None\<rparr>,
            [agent_request agentId msg])"
    using assms(2) by (rule general_path_failure_result)
  then show ?thesis
    using False by (simp add: agentMessage_def name_included)
qed


theorem http_failure_message_witness:
  "content (agentMessage sample_clock agent2
       (fst (sendToAgent backend_500 agent2 ''find the manual'' None))) =
     ''Knowledge Base Creator is currently unavailable. Please try again later.''
   \<and> msg_success (agentMessage sample_clock agent2
       (fst (sendToAgent backend_500 agent2 ''find the manual'' None))) = Some False
   \<and> content (agentMessage sample_clock agent1
       (fst (sendToAgent backend_500 agent1 ''upload this'' (Some sample_file)))) =
     ''Failed to upload file: Upload failed''"
proof -
  have h1: "backend_500 (if agent2 = agent1 \<and> (None :: js_file option) \<noteq> None
                  then upload_request (the None)
                  else agent_request agent2 ''find the manual'') =
      Resolved \<lparr>status = 500, json_body = Inr JNull\<rparr>"
    by (simp add: backend_500_def)
  have h2: "backend_500 (if agent1 = agent1 \<and> Some sample_file \<noteq> None
                  then upload_request (the (Some sample_file))
                  else agent_request agent1 ''upload this'') =
      Resolved \<lparr>status = 500, json_body = Inr JNull\<rparr>"
    by (simp add: backend_500_def)
  have h3: "status \<lparr>status = 500, json_body = Inr JNull\<rparr> < 200
      \<or> 299 < status \<lparr>status = 500, json_body = Inr JNull\<rparr>"
    by simp
  from http_failure_message [where fetch = backend_500 and clk = sample_clock, OF h1 h3]
       http_failure_message [where fetch = backend_500 and clk = sample_clock, OF h2 h3]
  show ?thesis
    by simp
qed

section \<open>Properties of the session flow\<close>

lemma trim_empty: "trim [] = []"
  by code_simp

lemma trim_spaces: "trim ''   '' = []"
  by code_simp

lemma trim_hello: "trim ''hello'' = ''hello''"
  by code_simp

lemma handleSendMessage_inert:
  "trim (inputValue st) = [] \<Longrightarrow> selectedFile st = None \<Longrightarrow> handleSendMessage fetch clk st = (st, [])"
  by (simp add: handleSendMessage_def)

lemma handleSendMessage_active:
  assumes "trim (inputValue st) \<noteq> [] \<or> selectedFile st \<noteq> None"
  shows "handleSendMessage fetch clk st =
    ((sending_state clk st)
       \<lparr>messages := messages (sending_state clk st) @
          [agentMessage clk (analyzeIntent (intent_text st))
             (fst (sendToAgent fetch (analyzeIntent (intent_text st)) (inputValue st)
                (selectedFile st)))],
        inputValue := [], selectedFile := None, isLoading := False\<rparr>,
     snd (sendToAgent fetch (analyzeIntent (intent_text st)) (inputValue st) (selectedFile st)))"
  using assms by (auto simp: handleSendMessage_def Let_def split: prod.splits)

lemma handleSendMessage_messages:
  assumes "trim (inputValue st) \<noteq> [] \<or> selectedFile st \<noteq> None"
  shows "messages (fst (handleSendMessage fetch clk st)) =
     messages st @ [userMessage clk st,
       agentMessage clk (analyzeIntent (intent_text st))
         (fst (sendToAgent fetch (analyzeIntent (intent_text st)) (inputValue st)
            (selectedFile st)))]"
  by (simp add: handleSendMessage_active [OF assms] sending_state_def)

text \<open>
  C7, amended. A send whose text is not blank (not empty after \<^verbatim>\<open>trim\<close>) or that has a
  staged file appends exactly two entries: the user message, which is in the transcript
  while the dispatch is awaited, and then the agent message; it sends exactly one request.
  A send whose text is blank, the empty text included, and that has no staged file
  changes nothing and sends nothing.
\<close>

theorem send_appends_user_then_agent:
  "(trim (inputValue st) \<noteq> [] \<or> selectedFile st \<noteq> None \<longrightarrow>
      messages (sending_state clk st) = messages st @ [userMessage clk st]
      \<and> messages (fst (handleSendMessage fetch clk st)) =
          messages st @ [userMessage clk st,
            agentMessage clk (analyzeIntent (intent_text st))
              (fst (sendToAgent fetch (analyzeIntent (intent_text st)) (inputValue st)
                 (selectedFile st)))]
      \<and> msg_type (userMessage clk st) = User
      \<and> msg_type (agentMessage clk (analyzeIntent (intent_text st))
              (fst (sendToAgent fetch (analyzeIntent (intent_text st)) (inputValue st)
                 (selectedFile st)))) = Agent
      \<and> length (snd (handleSendMessage fetch clk st)) = 1)
   \<and> (trim (inputValue st) = [] \<and> selectedFile st = None \<longrightarrow>
      handleSendMessage fetch clk st = (st, []))
   \<and> trim [] = []"
proof (intro conjI impI)
  assume a: "trim (inputValue st) \<noteq> [] \<or> selectedFile st \<noteq> None"
  show "messages (sending_state clk st) = messages st @ [userMessage clk st]"
    by (simp add: sending_state_def)
  show "messages (fst (handleSendMessage fetch clk st)) =
          messages st @ [userMessage clk st,
            agentMessage clk (analyzeIntent (intent_text st))
              (fst (sendToAgent fetch (analyzeIntent (intent_text st)) (inputValue st)
                 (selectedFile st)))]"
    using a by (rule handleSendMessage_messages)
  show "msg_type (userMessage clk st) = User"
    by (simp add: userMessage_def)
  show "msg_type (agentMessage clk (analyzeIntent (intent_text st))
              (fst (sendToAgent fetch (analyzeIntent (intent_text st)) (inputValue st)
                 (selectedFile st)))) = Agent"
    by (simp add: agentMessage_def)
  show "length (snd (handleSendMessage fetch clk st)) = 1"
    by (simp add: handleSendMessage_active [OF a] sendToAgent_one_request)
next
  assume "trim (inputValue st) = [] \<and> selectedFile st = None"
  then show "handleSendMessage fetch clk st = (st, [])"
    by (simp add: handleSendMessage_inert)
next
  show "trim [] = []"
    by code_simp
qed

theorem send_appends_user_then_agent_witness:
  "map msg_type (messages (fst (handleSendMessage backend_200 sample_clock (typed_state ''hello''))))
     = [System, User, Agent]
   \<and> map msg_type (messages (fst (handleSendMessage backend_200 sample_clock (staged_state []))))
     = [System, User, Agent]
   \<and> map msg_type (messages (fst (handleSendMessage backend_200 sample_clock (staged_state ''hello''))))
     = [System, User, Agent]
   \<and> handleSendMessage backend_200 sample_clock (initial_state 0) = (initial_state 0, [])"
proof -
  have t: "trim (inputValue (typed_state ''hello'')) \<noteq> [] \<or> selectedFile (typed_state ''hello'') \<noteq> None"
    by (simp add: typed_state_def trim_hello)
  have f: "trim (inputValue (staged_state [])) \<noteq> [] \<or> selectedFile (staged_state []) \<noteq> None"
    by (simp add: staged_state_def typed_state_def handleFileSelect_def)
  have b: "trim (inputValue (staged_state ''hello'')) \<noteq> [] \<or> selectedFile (staged_state ''hello'') \<noteq> None"
    by (simp add: staged_state_def typed_state_def handleFileSelect_def)
  have i: "trim (inputValue (initial_state 0)) = [] \<and> selectedFile (initial_state 0) = None"
    by (simp add: initial_state_def trim_empty)
  have m: "messages (typed_state v) = [greeting 0]" "messages (staged_state v) = [greeting 0]" for v
    by (simp_all add: staged_state_def typed_state_def handleFileSelect_def initial_state_def)
  have g: "msg_type (greeting 0) = System"
    by (simp add: greeting_def)
  from t f b i
    send_appends_user_then_agent [of "typed_state ''hello''" sample_clock backend_200]
    send_appends_user_then_agent [of "staged_state []" sample_clock backend_200]
    send_appends_user_then_agent [of "staged_state ''hello''" sample_clock backend_200]
    send_appends_user_then_agent [of "initial_state 0" sample_clock backend_200]
  show ?thesis
    by (simp add: m g)
qed


text \<open>
  C7, as the specification states it, fails for a text of white space only: with the text
  of three spaces, which is not empty, and no staged file, the guard
  \<^verbatim>\<open>!inputValue.trim() && !selectedFile\<close> returns at once; nothing is appended and
  nothing is sent.
\<close>

theorem blank_text_send_counterexample:
  "inputValue (typed_state ''   '') \<noteq> []
   \<and> selectedFile (typed_state ''   '') = None
   \<and> messages (fst (handleSendMessage backend_200 sample_clock (typed_state ''   ''))) =
       messages (typed_state ''   '')
   \<and> snd (handleSendMessage backend_200 sample_clock (typed_state ''   '')) = []"
proof -
  have "trim (inputValue (typed_state ''   '')) = []"
    by (simp add: typed_state_def trim_spaces)
  moreover have "selectedFile (typed_state ''   '') = None"
    by (simp add: typed_state_def initial_state_def)
  ultimately have "handleSendMessage backend_200 sample_clock (typed_state ''   '') =
      (typed_state ''   '', [])"
    by (rule handleSendMessage_inert)
  then show ?thesis
    by (simp add: typed_state_def initial_state_def)
qed


lemma upload_text_is_collector: "analyzeIntent (''upload file '' @ n) = agent1"
proof -
  have "toLowerCase ''upload file '' = ''upload file ''"
    by code_simp
  moreover have "includes_str ''upload file '' ''upload''"
    by simp
  ultimately have "includes_str (toLowerCase (''upload file '' @ n)) ''upload''"
    by (simp only: toLowerCase_append includes_str_append_left)
  then have "list_ex (includes_str (toLowerCase (''upload file '' @ n))) collector_keywords"
    by (simp add: collector_keywords_def)
  then show ?thesis
    by (rule agent1_if_collector_rule)
qed

text \<open>
  C8. With an empty text and a staged file the classifier is given
  \<open>upload file <name>\<close>; whatever the name, this text is classified \<open>agent1\<close>
  (collector), and the agent message of the send carries \<open>agent1\<close>.
\<close>

theorem empty_text_with_file_is_collector:
  assumes "inputValue st = []" and "selectedFile st = Some f"
  shows "intent_text st = ''upload file '' @ file_name f
     \<and> analyzeIntent (intent_text st) = agent1
     \<and> analyzeIntent (''upload file '' @ n) = agent1
     \<and> agent (last (messages (fst (handleSendMessage fetch clk st)))) = Some agent1"
proof -
  from assms have t: "intent_text st = ''upload file '' @ file_name f"
    by (simp add: intent_text_def optional_name_def)
  from assms have "trim (inputValue st) \<noteq> [] \<or> selectedFile st \<noteq> None"
    by simp
  then have "last (messages (fst (handleSendMessage fetch clk st))) =
      agentMessage clk (analyzeIntent (intent_text st))
         (fst (sendToAgent fetch (analyzeIntent (intent_text st)) (inputValue st)
            (selectedFile st)))"
    by (simp add: handleSendMessage_messages)
  moreover have c: "analyzeIntent (intent_text st) = agent1"
    unfolding t by (rule upload_text_is_collector)
  ultimately have "agent (last (messages (fst (handleSendMessage fetch clk st)))) = Some agent1"
    by (simp add: agentMessage_def)
  with t c upload_text_is_collector [of n] show ?thesis
    by blast
qed

theorem empty_text_with_file_is_collector_witness:
  "intent_text (staged_state []) = ''upload file report.pdf''
   \<and> analyzeIntent ''upload file report.pdf'' = agent1
   \<and> agent (last (messages (fst (handleSendMessage backend_200 sample_clock (staged_state [])))))
       = Some agent1"
proof -
  have h1: "inputValue (staged_state []) = []"
    by (simp add: staged_state_def typed_state_def handleFileSelect_def)
  have h2: "selectedFile (staged_state []) = Some sample_file"
    by (simp add: staged_state_def typed_state_def handleFileSelect_def)
  from empty_text_with_file_is_collector [OF h1 h2, of "''report.pdf''" backend_200 sample_clock]
  show ?thesis
    by (simp add: sample_file_def)
qed

lemma handleSendMessage_prefix:
  "prefix (messages st) (messages (fst (handleSendMessage fetch clk st)))"
proof (cases "trim (inputValue st) = [] \<and> selectedFile st = None")
  case True
  then show ?thesis
    by (simp add: handleSendMessage_inert)
next
  case False
  then have "trim (inputValue st) \<noteq> [] \<or> selectedFile st \<noteq> None"
    by simp
  then show ?thesis
    by (simp add: handleSendMessage_messages)
qed

lemma handle_prefix: "prefix (messages st) (messages (handle e st))"
  by (cases e) (simp_all add: handleSendMessage_prefix handleFileSelect_def split: list.splits)

lemma run_prefix: "prefix (messages st) (messages (run es st))"
proof (induction es arbitrary: st)
  case Nil
  show ?case
    by simp
next
  case (Cons e es)
  have "prefix (messages st) (messages (handle e st))"
    by (rule handle_prefix)
  also have "prefix (messages (handle e st)) (messages (run es (handle e st)))"
    by (rule Cons.IH)
  finally show ?case
    by simp
qed

text \<open>
  C9. Every event handler leaves the old transcript as a prefix of the new one, and so
  does the state in which a dispatch is awaited and every sequence of events: entries
  are appended at the end only, never removed or changed. The initial transcript is the
  system greeting of origin \<open>orchestrator\<close>, and it stays the first entry in every
  reachable state.
\<close>

theorem transcript_append_only:
  "prefix (messages st) (messages (handle e st))
   \<and> prefix (messages st) (messages (sending_state clk st))
   \<and> prefix (messages st) (messages (run es st))
   \<and> messages (initial_state t0) = [greeting t0]
   \<and> msg_type (greeting t0) = System
   \<and> agent (greeting t0) = Some orchestrator
   \<and> prefix [greeting t0] (messages (run es (initial_state t0)))
   \<and> prefix [greeting t0] (messages (sending_state clk (run es (initial_state t0))))"
proof -
  have "prefix (messages (initial_state t0)) (messages (run es (initial_state t0)))"
    by (rule run_prefix)
  then have g: "prefix [greeting t0] (messages (run es (initial_state t0)))"
    by (simp add: initial_state_def)
  also have "prefix (messages (run es (initial_state t0)))
      (messages (sending_state clk (run es (initial_state t0))))"
    by (simp add: sending_state_def)
  finally have "prefix [greeting t0] (messages (sending_state clk (run es (initial_state t0))))" .
  with g show ?thesis
    by (simp add: handle_prefix run_prefix sending_state_def initial_state_def greeting_def)
qed

lemma agent_request_not_upload: "\<not> is_file_upload (agent_request a m)"
  by (simp add: is_file_upload_def agent_request_def)

text \<open>
  C10. When a file is staged and the text is classified to a target other than \<open>agent1\<close>,
  the send makes the general request of that target and no upload request, although the
  user message shows the file; the staged file is cleared at the end of the send.
\<close>

theorem staged_file_discarded:
  assumes "selectedFile st = Some f" and "analyzeIntent (intent_text st) \<noteq> agent1"
  shows "snd (handleSendMessage fetch clk st) =
           [agent_request (analyzeIntent (intent_text st)) (inputValue st)]
     \<and> \<not> list_ex is_file_upload (snd (handleSendMessage fetch clk st))
     \<and> is_file_upload (upload_request f)
     \<and> selectedFile (fst (handleSendMessage fetch clk st)) = None
     \<and> msg_file (userMessage clk st) = Some f"
proof -
  from assms(1) have a: "trim (inputValue st) \<noteq> [] \<or> selectedFile st \<noteq> None"
    by simp
  from assms(2) have "snd (sendToAgent fetch (analyzeIntent (intent_text st)) (inputValue st)
      (selectedFile st)) = [agent_request (analyzeIntent (intent_text st)) (inputValue st)]"
    by (simp add: sendToAgent_def Let_def split: fetch_outcome.splits)
  then have "snd (handleSendMessage fetch clk st) =
           [agent_request (analyzeIntent (intent_text st)) (inputValue st)]"
    by (simp add: handleSendMessage_active [OF a])
  moreover have "selectedFile (fst (handleSendMessage fetch clk st)) = None"
    by (simp add: handleSendMessage_active [OF a])
  moreover have "is_file_upload (upload_request f)"
    by (simp add: is_file_upload_def upload_request_def)
  ultimately show ?thesis
    using assms(1) by (simp add: agent_request_not_upload userMessage_def)
qed

theorem staged_file_discarded_witness:
  "selectedFile (staged_state ''show the sales report'') = Some sample_file
   \<and> analyzeIntent (intent_text (staged_state ''show the sales report'')) = agent3
   \<and> snd (handleSendMessage backend_200 sample_clock (staged_state ''show the sales report'')) =
       [agent_request agent3 ''show the sales report'']
   \<and> selectedFile (fst (handleSendMessage backend_200 sample_clock
         (staged_state ''show the sales report''))) = None"
proof -
  have h1: "selectedFile (staged_state ''show the sales report'') = Some sample_file"
    by (simp add: staged_state_def typed_state_def handleFileSelect_def)
  have i: "intent_text (staged_state ''show the sales report'') = ''show the sales report''"
    by (simp add: intent_text_def staged_state_def typed_state_def handleFileSelect_def)
  have c: "analyzeIntent ''show the sales report'' = agent3"
    by code_simp
  have h2: "analyzeIntent (intent_text (staged_state ''show the sales report'')) \<noteq> agent1"
    by (simp add: i c)
  have v: "inputValue (staged_state ''show the sales report'') = ''show the sales report''"
    by (simp add: staged_state_def typed_state_def handleFileSelect_def)
  from staged_file_discarded [OF h1 h2, of backend_200 sample_clock] h1
  show ?thesis
    by (simp add: i c v)
qed

end
